theory Spec2Isabelle
  imports Main "HOL-Library.Sublist"
begin

section \<open>Strings\<close>

text \<open>
  A Python \<open>str\<close> is held as the list of bytes of its UTF-8 encoding, so that
  \<open>s.encode('utf-8')\<close> is the list itself, \<open>len(s.encode('utf-8'))\<close> is its
  length and \<open>not s\<close> is \<open>s = []\<close>. Equality, \<open>startswith\<close> and \<open>replace\<close> with an
  ASCII pattern agree on code points and on UTF-8 bytes.
\<close>

definition startswith :: "string \<Rightarrow> string \<Rightarrow> bool" where
  "startswith s p = prefix p s"

definition endswith :: "string \<Rightarrow> string \<Rightarrow> bool" where
  "endswith s p = suffix p s"

text \<open>
  \<open>s.replace(old, new)\<close>: every occurrence of \<open>old\<close>, found from the left and not
  overlapping, becomes \<open>new\<close>. With an empty \<open>old\<close> Python puts \<open>new\<close> before every
  character and at the end.
\<close>

function str_replace :: "string \<Rightarrow> string \<Rightarrow> string \<Rightarrow> string" where
  "str_replace old new [] = (if old = [] then new else [])"
| "str_replace old new (c # cs) =
     (if old = [] then new @ c # str_replace old new cs
      else if prefix old (c # cs)
        then new @ str_replace old new (drop (length old - 1) cs)
        else c # str_replace old new cs)"
  by pat_completeness auto
termination
  by (relation "measure (\<lambda>(old, new, s). length s)") auto

subsection \<open>Decoding UTF-8, malformed bytes ignored\<close>

text \<open>
  \<open>bs.decode('utf-8', errors='ignore')\<close>, followed by the encoding of the result:
  the well-formed sequences of \<open>bs\<close> stay, every other byte goes. \<open>utf8_lead\<close> gives,
  for a lead byte, the number of continuation bytes and the range the first of them
  must lie in (the later ones lie in \<open>0x80..0xBF\<close>). A sequence that breaks off, at a
  wrong byte or at the end of the input, is dropped up to the byte that broke it.
\<close>

definition utf8_lead :: "char \<Rightarrow> (nat \<times> nat \<times> nat) option" where
  "utf8_lead c =
     (let b = (of_char c :: nat) in
      if b < 0x80 then Some (0, 0x80, 0xBF)
      else if b < 0xC2 then None
      else if b < 0xE0 then Some (1, 0x80, 0xBF)
      else if b = 0xE0 then Some (2, 0xA0, 0xBF)
      else if b = 0xED then Some (2, 0x80, 0x9F)
      else if b < 0xF0 then Some (2, 0x80, 0xBF)
      else if b = 0xF0 then Some (3, 0x90, 0xBF)
      else if b < 0xF4 then Some (3, 0x80, 0xBF)
      else if b = 0xF4 then Some (3, 0x80, 0x8F)
      else None)"

fun utf8_conts :: "nat \<Rightarrow> nat \<Rightarrow> nat \<Rightarrow> string \<Rightarrow> nat" where
  "utf8_conts 0 lo hi bs = 0"
| "utf8_conts (Suc n) lo hi [] = 0"
| "utf8_conts (Suc n) lo hi (c # cs) =
     (if lo \<le> (of_char c :: nat) \<and> (of_char c :: nat) \<le> hi
      then Suc (utf8_conts n 0x80 0xBF cs) else 0)"

function decode_ignore :: "string \<Rightarrow> string" where
  "decode_ignore [] = []"
| "decode_ignore (c # cs) =
     (case utf8_lead c of
        None \<Rightarrow> decode_ignore cs
      | Some (n, lo, hi) \<Rightarrow>
          (let k = utf8_conts n lo hi cs in
           if k = n then c # take n cs @ decode_ignore (drop n cs)
           else decode_ignore (drop k cs)))"
  by pat_completeness auto
termination
  by (relation "measure length") auto

section \<open>security.py: password hashing\<close>

text \<open>
  \<open>hashlib.sha256(bs).hexdigest()\<close> belongs to the standard library, not to the
  repository: it is the parameter \<open>sha256_hex\<close> of both functions.
\<close>

definition verify_password :: "(string \<Rightarrow> string) \<Rightarrow> string \<Rightarrow> string \<Rightarrow> bool" where
  "verify_password sha256_hex plain_password hashed_password =
     (sha256_hex plain_password = hashed_password)"

definition get_password_hash :: "(string \<Rightarrow> string) \<Rightarrow> string \<Rightarrow> string" where
  "get_password_hash sha256_hex password0 =
     (let password_bytes = password0;
          password1 = (if length password_bytes > 72
                       then decode_ignore (take 72 password_bytes) else password0);
          password2 = (if password1 = [] then ''default_password'' else password1)
      in sha256_hex password2)"

section \<open>config.py, models.py: settings and records\<close>

record settings =
  SECRET_KEY :: string
  ALGORITHM :: string
  ACCESS_TOKEN_EXPIRE_MINUTES :: int
  UPLOAD_DIR :: string

text \<open>
  The rows of the tables \<open>users\<close> and \<open>files\<close>. The primary keys are \<open>id\<close> in the
  source. A file's \<open>recipient_id\<close> is nullable; its \<open>owner_id\<close> is the \<open>int\<close> that
  \<open>create_file_record\<close> stores, and the flags of a user are the booleans that
  \<open>create_user\<close> (by the column defaults) and \<open>admin.py\<close> store.
\<close>

record user =
  id_user :: int
  username :: string
  email :: string
  hashed_password :: string
  is_active :: bool
  is_admin :: bool

record file_record =
  id_file :: int
  filename :: string
  saved_filename :: string
  owner_id :: int
  recipient_id :: "int option"
  uploaded_at :: int

text \<open>The database session: both tables, in the order a query returns their rows.\<close>

record database =
  users :: "user list"
  files :: "file_record list"

section \<open>crud.py\<close>

definition get_user_by_username :: "database \<Rightarrow> string \<Rightarrow> user option" where
  "get_user_by_username db name = find (\<lambda>u. username u = name) (users db)"

definition get_file_by_saved_name :: "database \<Rightarrow> string \<Rightarrow> file_record option" where
  "get_file_by_saved_name db name = find (\<lambda>f. saved_filename f = name) (files db)"

section \<open>The token library\<close>

text \<open>
  Modelled from the spec: the package \<open>jose\<close>, whose \<open>jwt.decode\<close> and \<open>jwt.encode\<close>
  \<open>main.py\<close> and \<open>security.py\<close> call, is not under src/. The spec's bearer token is a
  signed, self-contained credential carrying a subject and an expiry instant, signed
  with a symmetric key and a standard signed-token algorithm. A token is held as the
  library sees it once its string is parsed: the key and the algorithm that signed it,
  and its claims. The subject may be missing (\<open>get_current_user\<close> tests it). Time is in
  whole seconds.
\<close>

record jwt =
  signed_with :: string
  alg :: string
  sub :: "string option"
  exp :: int

text \<open>
  Modelled from the spec: the error kinds of the Token Service's \<open>validate\<close>, which
  \<open>jose\<close> raises as \<open>JWTError\<close> and its subclasses.
\<close>

datatype token_error = InvalidSignature | Expired | Malformed

text \<open>
  Modelled from the spec: \<open>jose.jwt.decode(token, key, algorithms)\<close>, which is not under
  src/. The spec's Token Service: validation fails with \<open>Malformed\<close> if the token cannot
  be parsed, with \<open>InvalidSignature\<close> if the signature does not verify, with \<open>Expired\<close>
  if the expiry instant has passed; a token validates until exactly its expiry instant
  and fails strictly after. Which strings are which tokens is the parameter \<open>parse\<close>;
  a signature verifies under the key that made it and an algorithm of the list.
\<close>

definition jwt_decode ::
  "(string \<Rightarrow> jwt option) \<Rightarrow> int \<Rightarrow> string \<Rightarrow> string \<Rightarrow> string list \<Rightarrow> token_error + jwt" where
  "jwt_decode parse now token key algorithms =
     (case parse token of
        None \<Rightarrow> Inl Malformed
      | Some t \<Rightarrow>
          if signed_with t \<noteq> key \<or> alg t \<notin> set algorithms then Inl InvalidSignature
          else if exp t < now then Inl Expired
          else Inr t)"

text \<open>
  Modelled from the spec: \<open>jose.jwt.encode(claims, key, algorithm)\<close>, which is not under
  src/. The spec's \<open>issue\<close> produces the string of a token asserting the subject and
  the expiry, signed with the key; \<open>unparse\<close> is the string of a token.
\<close>

definition jwt_encode ::
  "(jwt \<Rightarrow> string) \<Rightarrow> string option \<Rightarrow> int \<Rightarrow> string \<Rightarrow> string \<Rightarrow> string" where
  "jwt_encode unparse claim_sub claim_exp key algorithm =
     unparse \<lparr>signed_with = key, alg = algorithm, sub = claim_sub, exp = claim_exp\<rparr>"

section \<open>security.py: access tokens\<close>

text \<open>
  \<open>data\<close> is the dictionary \<open>{"sub": username}\<close>, \<open>expires_delta\<close> a \<open>timedelta\<close> in
  seconds or \<open>None\<close>; \<open>timedelta(0)\<close> is false in Python, as \<open>None\<close> is.
\<close>

definition create_access_token ::
  "(jwt \<Rightarrow> string) \<Rightarrow> settings \<Rightarrow> int \<Rightarrow> string option \<Rightarrow> int option \<Rightarrow> string" where
  "create_access_token unparse cfg now data expires_delta =
     (let expire = (case expires_delta of
                      Some d \<Rightarrow> if d \<noteq> 0 then now + d else now + 15 * 60
                    | None \<Rightarrow> now + 15 * 60)
      in jwt_encode unparse data expire (SECRET_KEY cfg) (ALGORITHM cfg))"

section \<open>main.py: the authentication dependencies\<close>

datatype http_exception =
  HTTPException (status_code: nat) (detail: string) (exc_headers: "(string \<times> string) list")

record request =
  cookies :: "string \<rightharpoonup> string"
  headers :: "string \<rightharpoonup> string"

definition credentials_exception :: http_exception where
  "credentials_exception =
     HTTPException 401 ''Could not validate credentials'' [(''WWW-Authenticate'', ''Bearer'')]"

text \<open>
  Lines 54 to 63 of \<open>get_current_user\<close>: the token of the cookie first, of the
  \<open>Authorization\<close> header when the cookie gave none or an empty one.
\<close>

definition extract_token :: "request \<Rightarrow> string option" where
  "extract_token req =
     (let token = (case cookies req ''access_token'' of
                     Some c \<Rightarrow> if c \<noteq> [] then Some (str_replace ''Bearer '' [] c) else None
                   | None \<Rightarrow> None)
      in if token = None \<or> token = Some [] then
           (case headers req ''Authorization'' of
              Some auth_header \<Rightarrow>
                if auth_header \<noteq> [] \<and> startswith auth_header ''Bearer ''
                then Some (str_replace ''Bearer '' [] auth_header) else token
            | None \<Rightarrow> token)
         else token)"

definition get_current_user ::
  "(string \<Rightarrow> jwt option) \<Rightarrow> settings \<Rightarrow> int \<Rightarrow> database \<Rightarrow> request \<Rightarrow> http_exception + user" where
  "get_current_user parse cfg now db req =
     (case extract_token req of
        None \<Rightarrow> Inl credentials_exception
      | Some token \<Rightarrow>
          if token = [] then Inl credentials_exception
          else (case jwt_decode parse now token (SECRET_KEY cfg) [ALGORITHM cfg] of
                  Inl e \<Rightarrow> Inl credentials_exception
                | Inr payload \<Rightarrow>
                    (case sub payload of
                       None \<Rightarrow> Inl credentials_exception
                     | Some name \<Rightarrow>
                         (case get_user_by_username db name of
                            None \<Rightarrow> Inl credentials_exception
                          | Some u \<Rightarrow> Inr u))))"

definition get_current_active_user ::
  "(string \<Rightarrow> jwt option) \<Rightarrow> settings \<Rightarrow> int \<Rightarrow> database \<Rightarrow> request \<Rightarrow> http_exception + user" where
  "get_current_active_user parse cfg now db req =
     (case get_current_user parse cfg now db req of
        Inl e \<Rightarrow> Inl e
      | Inr current_user \<Rightarrow>
          if \<not> is_active current_user then Inl (HTTPException 400 ''Inactive user'' [])
          else Inr current_user)"

definition get_current_admin_user ::
  "(string \<Rightarrow> jwt option) \<Rightarrow> settings \<Rightarrow> int \<Rightarrow> database \<Rightarrow> request \<Rightarrow> http_exception + user" where
  "get_current_admin_user parse cfg now db req =
     (case get_current_active_user parse cfg now db req of
        Inl e \<Rightarrow> Inl e
      | Inr current_user \<Rightarrow>
          if \<not> is_admin current_user then Inl (HTTPException 403 ''Admin access required'' [])
          else Inr current_user)"

section \<open>main.py: the login routes\<close>

text \<open>
  What a route returns. A template response carries the template's name and its
  context without the request object; a redirect may set a cookie (key, value,
  httponly, max-age, expires). Each has the status the framework gives it.
\<close>

datatype cookie = Cookie string string bool int int

datatype response =
    TemplateResponse string "(string \<times> string) list"
  | RedirectResponse string nat "cookie option"
  | JSONResponse "(string \<times> string) list"
  | FileResponse string string

fun response_status :: "response \<Rightarrow> nat" where
  "response_status (TemplateResponse name ctx) = 200"
| "response_status (RedirectResponse url st c) = st"
| "response_status (JSONResponse body) = 200"
| "response_status (FileResponse path name) = 200"

fun client_status :: "http_exception + response \<Rightarrow> nat" where
  "client_status (Inl e) = status_code e"
| "client_status (Inr r) = response_status r"

definition login_for_access_token ::
  "(string \<Rightarrow> string) \<Rightarrow> (jwt \<Rightarrow> string) \<Rightarrow> settings \<Rightarrow> int \<Rightarrow> database \<Rightarrow>
   string \<Rightarrow> string \<Rightarrow> response" where
  "login_for_access_token sha256_hex unparse cfg now db name password =
     (case get_user_by_username db name of
        None \<Rightarrow> TemplateResponse ''login.html'' [(''error'', ''Incorrect username or password'')]
      | Some u \<Rightarrow>
          if \<not> is_active u \<or> \<not> verify_password sha256_hex password (hashed_password u)
          then TemplateResponse ''login.html'' [(''error'', ''Incorrect username or password'')]
          else
            (let access_token_expires = ACCESS_TOKEN_EXPIRE_MINUTES cfg * 60;
                 access_token = create_access_token unparse cfg now (Some (username u))
                                  (Some access_token_expires)
             in RedirectResponse ''/dashboard'' 303
                  (Some (Cookie ''access_token'' (''Bearer '' @ access_token) True
                           (ACCESS_TOKEN_EXPIRE_MINUTES cfg * 60)
                           (ACCESS_TOKEN_EXPIRE_MINUTES cfg * 60)))))"

definition api_login_for_access_token ::
  "(string \<Rightarrow> string) \<Rightarrow> (jwt \<Rightarrow> string) \<Rightarrow> settings \<Rightarrow> int \<Rightarrow> database \<Rightarrow>
   string \<Rightarrow> string \<Rightarrow> http_exception + response" where
  "api_login_for_access_token sha256_hex unparse cfg now db name password =
     (case get_user_by_username db name of
        None \<Rightarrow> Inl (HTTPException 401 ''Incorrect username or password''
                       [(''WWW-Authenticate'', ''Bearer'')])
      | Some u \<Rightarrow>
          if \<not> is_active u \<or> \<not> verify_password sha256_hex password (hashed_password u)
          then Inl (HTTPException 401 ''Incorrect username or password''
                      [(''WWW-Authenticate'', ''Bearer'')])
          else
            (let access_token_expires = ACCESS_TOKEN_EXPIRE_MINUTES cfg * 60;
                 access_token = create_access_token unparse cfg now (Some (username u))
                                  (Some access_token_expires)
             in Inr (JSONResponse [(''access_token'', access_token), (''token_type'', ''bearer'')])))"

section \<open>main.py: download\<close>

text \<open>\<open>os.path.join\<close> of two components, on a POSIX system.\<close>

definition path_join :: "string \<Rightarrow> string \<Rightarrow> string" where
  "path_join a b =
     (if startswith b ''/'' then b
      else if a = [] \<or> endswith a ''/'' then a @ b
      else a @ ''/'' @ b)"

text \<open>
  The body of \<open>download_file\<close>, given the user its dependency resolved. \<open>path_exists\<close>
  is \<open>os.path.exists\<close> on the file system of the moment.
\<close>

definition download_file ::
  "(string \<Rightarrow> bool) \<Rightarrow> settings \<Rightarrow> database \<Rightarrow> string \<Rightarrow> user \<Rightarrow> http_exception + response" where
  "download_file path_exists cfg db saved_name current_user =
     (case get_file_by_saved_name db saved_name of
        None \<Rightarrow> Inl (HTTPException 404 ''File not found'' [])
      | Some db_file \<Rightarrow>
          if owner_id db_file \<noteq> id_user current_user
             \<and> recipient_id db_file \<noteq> Some (id_user current_user)
          then Inl (HTTPException 403 ''Not authorized to download this file'' [])
          else
            (let file_path = path_join (UPLOAD_DIR cfg) (saved_filename db_file) in
             if \<not> path_exists file_path
             then Inl (HTTPException 404 ''File not found on disk'' [])
             else Inr (FileResponse file_path (filename db_file))))"

text \<open>The route \<open>GET /download/{saved_filename}\<close>: the dependency, then the body.\<close>

definition download_route ::
  "(string \<Rightarrow> jwt option) \<Rightarrow> settings \<Rightarrow> int \<Rightarrow> (string \<Rightarrow> bool) \<Rightarrow> database \<Rightarrow>
   request \<Rightarrow> string \<Rightarrow> http_exception + response" where
  "download_route parse cfg now path_exists db req saved_name =
     (case get_current_active_user parse cfg now db req of
        Inl e \<Rightarrow> Inl e
      | Inr current_user \<Rightarrow> download_file path_exists cfg db saved_name current_user)"

section \<open>A small deployment\<close>

text \<open>
  Concrete settings, tables, blobs and tokens, on which the closed instances of the
  theorems below are computed. The digest of the deployment is the identity: it has no
  collisions, and it computes inside the logic. Tokens issued at the instant \<open>1000\<close>
  expire at \<open>2800\<close>. At the instant \<open>1000\<close> the token
  \<open>t.edge\<close> is at its expiry, \<open>t.old\<close> one second past it, and \<open>t.forged\<close> is signed
  with a key that is not the server's.
\<close>

definition demo_settings :: settings where
  "demo_settings = \<lparr>SECRET_KEY = ''s3cret'', ALGORITHM = ''HS256'',
     ACCESS_TOKEN_EXPIRE_MINUTES = 30, UPLOAD_DIR = ''uploads''\<rparr>"

definition demo_digest :: "string \<Rightarrow> string" where
  "demo_digest bs = bs"

definition demo_user :: "int \<Rightarrow> string \<Rightarrow> string \<Rightarrow> bool \<Rightarrow> bool \<Rightarrow> user" where
  "demo_user i name key active admin =
     \<lparr>id_user = i, username = name, email = name @ ''@example.org'',
      hashed_password = get_password_hash demo_digest key, is_active = active, is_admin = admin\<rparr>"

definition demo_db :: database where
  "demo_db = \<lparr>users =
       [demo_user 1 ''ALICE1'' ''KEYALICE01'' True False,
        demo_user 2 ''BOB002'' ''KEYBOB0002'' True False,
        demo_user 3 ''CAROL3'' ''KEYCAROL03'' True False,
        demo_user 4 ''ROOT04'' ''KEYROOT004'' True True,
        demo_user 5 ''DAVE05'' ''KEYDAVE005'' False False],
     files =
       [\<lparr>id_file = 1, filename = ''report.pdf'', saved_filename = ''f1.pdf'',
         owner_id = 1, recipient_id = Some 2, uploaded_at = 10\<rparr>,
        \<lparr>id_file = 2, filename = ''notes.txt'', saved_filename = ''f2.txt'',
         owner_id = 1, recipient_id = None, uploaded_at = 20\<rparr>,
        \<lparr>id_file = 3, filename = ''lost.bin'', saved_filename = ''f3.bin'',
         owner_id = 2, recipient_id = None, uploaded_at = 30\<rparr>]\<rparr>"

definition demo_exists :: "string \<Rightarrow> bool" where
  "demo_exists p = (p = ''uploads/f1.pdf'' \<or> p = ''uploads/f2.txt'')"

definition demo_token :: "string \<Rightarrow> string \<Rightarrow> int \<Rightarrow> jwt" where
  "demo_token key name e = \<lparr>signed_with = key, alg = ''HS256'', sub = Some name, exp = e\<rparr>"

definition demo_unparse :: "jwt \<Rightarrow> string" where
  "demo_unparse t =
     (if t = demo_token ''s3cret'' ''ALICE1'' 2800 then ''t.alice''
      else if t = demo_token ''s3cret'' ''BOB002'' 2800 then ''t.bob''
      else ''t.unlisted'')"

definition demo_parse :: "string \<Rightarrow> jwt option" where
  "demo_parse s =
     (if s = ''t.alice'' then Some (demo_token ''s3cret'' ''ALICE1'' 2800)
      else if s = ''t.bob'' then Some (demo_token ''s3cret'' ''BOB002'' 2800)
      else if s = ''t.carol'' then Some (demo_token ''s3cret'' ''CAROL3'' 2000)
      else if s = ''t.root'' then Some (demo_token ''s3cret'' ''ROOT04'' 2000)
      else if s = ''t.dave'' then Some (demo_token ''s3cret'' ''DAVE05'' 2000)
      else if s = ''t.edge'' then Some (demo_token ''s3cret'' ''ALICE1'' 1000)
      else if s = ''t.old'' then Some (demo_token ''s3cret'' ''ALICE1'' 999)
      else if s = ''t.forged'' then Some (demo_token ''guess'' ''ROOT04'' 2000)
      else None)"

definition bearer_request :: "string \<Rightarrow> request" where
  "bearer_request token =
     \<lparr>cookies = Map.empty, headers = [''Authorization'' \<mapsto> ''Bearer '' @ token]\<rparr>"

definition cookie_request :: "string \<Rightarrow> request" where
  "cookie_request token =
     \<lparr>cookies = [''access_token'' \<mapsto> ''Bearer '' @ token], headers = Map.empty\<rparr>"

lemmas demo_defs =
  demo_settings_def demo_digest_def demo_user_def demo_db_def demo_exists_def
  demo_token_def demo_unparse_def demo_parse_def bearer_request_def cookie_request_def

lemmas route_defs =
  extract_token_def get_current_user_def get_current_active_user_def
  get_current_admin_user_def jwt_decode_def jwt_encode_def create_access_token_def
  get_user_by_username_def get_file_by_saved_name_def get_password_hash_def
  verify_password_def startswith_def endswith_def path_join_def download_file_def
  download_route_def credentials_exception_def login_for_access_token_def
  api_login_for_access_token_def

section \<open>Lookups and the dependency chain\<close>

lemma get_user_by_username_name:
  "get_user_by_username db name = Some u \<Longrightarrow> username u = name"
  by (auto simp: get_user_by_username_def find_Some_iff)

lemma get_file_by_saved_name_name:
  "get_file_by_saved_name db name = Some f \<Longrightarrow> saved_filename f = name"
  by (auto simp: get_file_by_saved_name_def find_Some_iff)

lemma get_current_user_Inl:
  "get_current_user parse cfg now db req = Inl e \<Longrightarrow> e = credentials_exception"
  by (auto simp: get_current_user_def split: option.splits if_splits sum.splits)

lemma get_current_user_Inr:
  assumes "get_current_user parse cfg now db req = Inr u"
  shows "\<exists>token t. extract_token req = Some token \<and> token \<noteq> [] \<and>
           jwt_decode parse now token (SECRET_KEY cfg) [ALGORITHM cfg] = Inr t \<and>
           sub t = Some (username u) \<and> get_user_by_username db (username u) = Some u"
  using assms
  by (auto simp: get_current_user_def split: option.splits if_splits sum.splits
      dest: get_user_by_username_name)

lemma jwt_decode_Inr:
  "jwt_decode parse now token key algorithms = Inr t \<Longrightarrow>
     parse token = Some t \<and> signed_with t = key \<and> alg t \<in> set algorithms \<and> now \<le> exp t"
  by (auto simp: jwt_decode_def split: option.splits if_splits)

lemma jwt_decode_other_key:
  "parse token = Some t \<Longrightarrow> signed_with t \<noteq> key \<Longrightarrow>
     jwt_decode parse now token key algorithms = Inl InvalidSignature"
  by (simp add: jwt_decode_def)

lemma length_decode_ignore: "length (decode_ignore bs) \<le> length bs"
proof (induction bs rule: decode_ignore.induct)
  case 1
  show ?case by simp
next
  case (2 c cs)
  show ?case
  proof (cases "utf8_lead c")
    case None
    with 2 show ?thesis by simp
  next
    case (Some t)
    obtain n lo hi where t: "t = (n, lo, hi)" by (cases t) auto
    show ?thesis
    proof (cases "utf8_conts n lo hi cs = n")
      case True
      with 2(2)[OF Some[unfolded t] refl refl] Some t show ?thesis by (simp add: Let_def)
    next
      case False
      with 2(3)[OF Some[unfolded t] refl refl] Some t show ?thesis by (simp add: Let_def)
    qed
  qed
qed

lemma decode_ignore_ascii:
  "decode_ignore (replicate n (CHR ''a'')) = replicate n (CHR ''a'')"
  by (induction n) (simp_all add: utf8_lead_def)

text \<open>What \<open>get_password_hash\<close> digests is never empty and never longer than 72 bytes.\<close>

lemma hash_input_short:
  "\<exists>t. length t \<le> 72 \<and> t \<noteq> [] \<and> get_password_hash sha256_hex s = sha256_hex t"
proof (cases "72 < length s")
  case True
  have le: "length (decode_ignore (take 72 s)) \<le> 72"
    using length_decode_ignore[of "take 72 s"] by simp
  show ?thesis
  proof (cases "decode_ignore (take 72 s) = []")
    case e: True
    with True have "get_password_hash sha256_hex s = sha256_hex ''default_password''"
      by (simp add: get_password_hash_def)
    then show ?thesis by (intro exI[of _ "''default_password''"]) simp
  next
    case ne: False
    with True have "get_password_hash sha256_hex s = sha256_hex (decode_ignore (take 72 s))"
      by (simp add: get_password_hash_def)
    with ne le show ?thesis by blast
  qed
next
  case False
  show ?thesis
  proof (cases "s = []")
    case True
    then have "get_password_hash sha256_hex s = sha256_hex ''default_password''"
      by (simp add: get_password_hash_def)
    then show ?thesis by (intro exI[of _ "''default_password''"]) simp
  next
    case ne: False
    with False have "get_password_hash sha256_hex s = sha256_hex s"
      by (simp add: get_password_hash_def)
    with ne False show ?thesis by (intro exI[of _ s]) simp
  qed
qed

lemma decode_ignore_ascii_append:
  "decode_ignore (replicate n (CHR ''a'') @ bs) = replicate n (CHR ''a'') @ decode_ignore bs"
  by (induction n) (simp_all add: utf8_lead_def)

lemma decode_ignore_cut_lead: "decode_ignore [CHR 0xC3] = []"
  by (simp add: utf8_lead_def)

lemma hash_input_differs:
  assumes "72 < length s"
  shows "(if decode_ignore (take 72 s) = [] then ''default_password''
          else decode_ignore (take 72 s)) \<noteq> s"
proof
  assume e: "(if decode_ignore (take 72 s) = [] then ''default_password''
          else decode_ignore (take 72 s)) = s"
  have "length (decode_ignore (take 72 s)) \<le> 72"
    using length_decode_ignore[of "take 72 s"] by simp
  then have "length (if decode_ignore (take 72 s) = [] then ''default_password''
          else decode_ignore (take 72 s)) \<le> 72" by simp
  then have "length s \<le> 72" by (simp only: e)
  with assms show False by simp
qed

text \<open>
  A token issued by the web login of the deployment, sent back in its cookie, resolves
  to the user who logged in.
\<close>

lemma demo_login_then_request:
  "login_for_access_token demo_digest demo_unparse demo_settings 1000 demo_db
       ''ALICE1'' ''KEYALICE01''
     = RedirectResponse ''/dashboard'' 303
         (Some (Cookie ''access_token'' ''Bearer t.alice'' True 1800 1800))
   \<and> get_current_active_user demo_parse demo_settings 1700 demo_db (cookie_request ''t.alice'')
     = Inr (demo_user 1 ''ALICE1'' ''KEYALICE01'' True False)"
  by (simp add: demo_defs route_defs)

section \<open>Download authorization\<close>



text \<open>
  C8. For a record whose recipient id is null, no user's id equals the recipient
  reference, and the body of \<open>download_file\<close> answers 403 exactly to the users who are
  not the owner.
\<close>

theorem unshared_file_owner_only:
  assumes "get_file_by_saved_name db name = Some f" and "recipient_id f = None"
  shows "recipient_id f \<noteq> Some (id_user u)
         \<and> (download_file path_exists cfg db name u
              = Inl (HTTPException 403 ''Not authorized to download this file'' []))
           = (id_user u \<noteq> owner_id f)"
  using assms by (auto simp: download_file_def Let_def)

theorem unshared_file_owner_only_witness:
  "download_file demo_exists demo_settings demo_db ''f2.txt''
       (demo_user 2 ''BOB002'' ''KEYBOB0002'' True False)
     = Inl (HTTPException 403 ''Not authorized to download this file'' [])
   \<and> download_file demo_exists demo_settings demo_db ''f2.txt''
       (demo_user 1 ''ALICE1'' ''KEYALICE01'' True False)
     \<noteq> Inl (HTTPException 403 ''Not authorized to download this file'' [])"
proof -
  let ?f = "\<lparr>id_file = 2, filename = ''notes.txt'', saved_filename = ''f2.txt'',
         owner_id = 1, recipient_id = None, uploaded_at = 20\<rparr>"
  have f: "get_file_by_saved_name demo_db ''f2.txt'' = Some ?f"
    by (simp add: demo_defs route_defs)
  have n: "recipient_id ?f = None" by simp
  show ?thesis
    using unshared_file_owner_only [OF f n, where path_exists = demo_exists
        and cfg = demo_settings and u = "demo_user 2 ''BOB002'' ''KEYBOB0002'' True False"]
      unshared_file_owner_only [OF f n, where path_exists = demo_exists
        and cfg = demo_settings and u = "demo_user 1 ''ALICE1'' ''KEYALICE01'' True False"]
    by (simp add: demo_user_def)
qed

text \<open>
  C5. For an authenticated request, \<open>GET /download/{saved_filename}\<close> answers 404
  when no record has the stored name, 403 when the record is there and the user is
  neither owner nor recipient, 404 when the user is one of them and the blob is
  missing, and otherwise 200, a file response whose download name is the record's
  original file name.
\<close>

theorem download_route_statuses:
  assumes "get_current_active_user parse cfg now db req = Inr u"
  shows "(get_file_by_saved_name db name = None \<longrightarrow>
            client_status (download_route parse cfg now path_exists db req name) = 404)
       \<and> (get_file_by_saved_name db name = Some f
            \<and> owner_id f \<noteq> id_user u \<and> recipient_id f \<noteq> Some (id_user u) \<longrightarrow>
            client_status (download_route parse cfg now path_exists db req name) = 403)
       \<and> (get_file_by_saved_name db name = Some f
            \<and> (owner_id f = id_user u \<or> recipient_id f = Some (id_user u))
            \<and> \<not> path_exists (path_join (UPLOAD_DIR cfg) (saved_filename f)) \<longrightarrow>
            client_status (download_route parse cfg now path_exists db req name) = 404)
       \<and> (get_file_by_saved_name db name = Some f
            \<and> (owner_id f = id_user u \<or> recipient_id f = Some (id_user u))
            \<and> path_exists (path_join (UPLOAD_DIR cfg) (saved_filename f)) \<longrightarrow>
            download_route parse cfg now path_exists db req name
              = Inr (FileResponse (path_join (UPLOAD_DIR cfg) (saved_filename f)) (filename f))
            \<and> client_status (download_route parse cfg now path_exists db req name) = 200)"
  using assms by (auto simp: download_route_def download_file_def Let_def)


theorem download_route_statuses_witness:
  "client_status (download_route demo_parse demo_settings 1000 demo_exists demo_db
       (bearer_request ''t.alice'') ''nothing.pdf'') = 404
   \<and> client_status (download_route demo_parse demo_settings 1000 demo_exists demo_db
       (bearer_request ''t.carol'') ''f1.pdf'') = 403
   \<and> client_status (download_route demo_parse demo_settings 1000 demo_exists demo_db
       (bearer_request ''t.bob'') ''f3.bin'') = 404
   \<and> download_route demo_parse demo_settings 1000 demo_exists demo_db
       (bearer_request ''t.bob'') ''f1.pdf'' = Inr (FileResponse ''uploads/f1.pdf'' ''report.pdf'')
   \<and> client_status (download_route demo_parse demo_settings 1000 demo_exists demo_db
       (bearer_request ''t.bob'') ''f1.pdf'') = 200"
proof -
  let ?alice = "demo_user 1 ''ALICE1'' ''KEYALICE01'' True False"
  let ?bob = "demo_user 2 ''BOB002'' ''KEYBOB0002'' True False"
  let ?carol = "demo_user 3 ''CAROL3'' ''KEYCAROL03'' True False"
  let ?f1 = "\<lparr>id_file = 1, filename = ''report.pdf'', saved_filename = ''f1.pdf'',
         owner_id = 1, recipient_id = Some 2, uploaded_at = 10\<rparr>"
  let ?f3 = "\<lparr>id_file = 3, filename = ''lost.bin'', saved_filename = ''f3.bin'',
         owner_id = 2, recipient_id = None, uploaded_at = 30\<rparr>"
  have f0: "get_file_by_saved_name demo_db ''nothing.pdf'' = None"
    by (simp add: demo_defs route_defs)
  have f1: "get_file_by_saved_name demo_db ''f1.pdf'' = Some ?f1"
    by (simp add: demo_defs route_defs)
  have f3: "get_file_by_saved_name demo_db ''f3.bin'' = Some ?f3"
    by (simp add: demo_defs route_defs)
  have a: "get_current_active_user demo_parse demo_settings 1000 demo_db
             (bearer_request ''t.alice'') = Inr ?alice"
    by (simp add: demo_defs route_defs)
  have b: "get_current_active_user demo_parse demo_settings 1000 demo_db
             (bearer_request ''t.bob'') = Inr ?bob"
    by (simp add: demo_defs route_defs)
  have c: "get_current_active_user demo_parse demo_settings 1000 demo_db
             (bearer_request ''t.carol'') = Inr ?carol"
    by (simp add: demo_defs route_defs)
  have j1: "path_join (UPLOAD_DIR demo_settings) ''f1.pdf'' = ''uploads/f1.pdf''"
    by (simp add: demo_settings_def path_join_def startswith_def endswith_def suffix_to_prefix)
  have j3: "path_join (UPLOAD_DIR demo_settings) ''f3.bin'' = ''uploads/f3.bin''"
    by (simp add: demo_settings_def path_join_def startswith_def endswith_def suffix_to_prefix)
  show ?thesis
    using download_route_statuses [OF a, where path_exists = demo_exists
        and name = "''nothing.pdf''"]
      download_route_statuses [OF c, where path_exists = demo_exists
        and name = "''f1.pdf''" and f = ?f1]
      download_route_statuses [OF b, where path_exists = demo_exists
        and name = "''f3.bin''" and f = ?f3]
      download_route_statuses [OF b, where path_exists = demo_exists
        and name = "''f1.pdf''" and f = ?f1]
      f0 f1 f3 j1 j3
    by (simp add: demo_user_def demo_exists_def)
qed

section \<open>The access-control gate\<close>

text \<open>
  C2, amended. A token the gate accepts is signed with the server's configured key and
  algorithm, its expiry instant is not before the instant of validation, and its
  subject is the user returned; a token signed with another key fails validation with
  \<open>InvalidSignature\<close>, whatever subject and expiry it claims, and the gate answers 401.
\<close>

theorem accepted_token_signed_and_unexpired:
  "(get_current_user parse cfg now db req = Inr u \<longrightarrow>
      (\<exists>token t. extract_token req = Some token \<and> parse token = Some t
         \<and> signed_with t = SECRET_KEY cfg \<and> alg t = ALGORITHM cfg
         \<and> now \<le> exp t \<and> sub t = Some (username u)))
   \<and> (extract_token req = Some token' \<and> parse token' = Some t'
        \<and> signed_with t' \<noteq> SECRET_KEY cfg \<longrightarrow>
        jwt_decode parse now token' (SECRET_KEY cfg) [ALGORITHM cfg] = Inl InvalidSignature
        \<and> get_current_user parse cfg now db req = Inl credentials_exception)"
proof (intro conjI impI)
  assume "get_current_user parse cfg now db req = Inr u"
  then obtain token t where
    "extract_token req = Some token"
    "jwt_decode parse now token (SECRET_KEY cfg) [ALGORITHM cfg] = Inr t"
    "sub t = Some (username u)"
    using get_current_user_Inr by blast
  then show "\<exists>token t. extract_token req = Some token \<and> parse token = Some t
         \<and> signed_with t = SECRET_KEY cfg \<and> alg t = ALGORITHM cfg
         \<and> now \<le> exp t \<and> sub t = Some (username u)"
    using jwt_decode_Inr [of parse now token "SECRET_KEY cfg" "[ALGORITHM cfg]" t] by auto
next
  assume h: "extract_token req = Some token' \<and> parse token' = Some t'
        \<and> signed_with t' \<noteq> SECRET_KEY cfg"
  then show "jwt_decode parse now token' (SECRET_KEY cfg) [ALGORITHM cfg] = Inl InvalidSignature"
    by (simp add: jwt_decode_other_key)
  with h show "get_current_user parse cfg now db req = Inl credentials_exception"
    by (simp add: get_current_user_def)
qed

theorem token_at_expiry_accepted:
  "get_current_user demo_parse demo_settings 1000 demo_db (bearer_request ''t.edge'')
     = Inr (demo_user 1 ''ALICE1'' ''KEYALICE01'' True False)
   \<and> extract_token (bearer_request ''t.edge'') = Some ''t.edge''
   \<and> map_option exp (demo_parse ''t.edge'') = Some 1000
   \<and> \<not> (1000 < (1000 :: int))"
  by (simp add: demo_defs route_defs)

theorem accepted_token_signed_and_unexpired_witness:
  "(\<exists>token t. extract_token (bearer_request ''t.alice'') = Some token
       \<and> demo_parse token = Some t \<and> signed_with t = ''s3cret'' \<and> alg t = ''HS256''
       \<and> 1000 \<le> exp t \<and> sub t = Some ''ALICE1'')
   \<and> jwt_decode demo_parse 1000 ''t.forged'' ''s3cret'' [''HS256''] = Inl InvalidSignature
   \<and> get_current_user demo_parse demo_settings 1000 demo_db (bearer_request ''t.forged'')
       = Inl credentials_exception"
proof -
  have a: "get_current_user demo_parse demo_settings 1000 demo_db (bearer_request ''t.alice'')
             = Inr (demo_user 1 ''ALICE1'' ''KEYALICE01'' True False)"
    by (simp add: demo_defs route_defs)
  have e: "extract_token (bearer_request ''t.forged'') = Some ''t.forged''"
    by (simp add: demo_defs route_defs)
  have p: "demo_parse ''t.forged'' = Some (demo_token ''guess'' ''ROOT04'' 2000)"
    by (simp add: demo_parse_def)
  have k: "signed_with (demo_token ''guess'' ''ROOT04'' 2000) \<noteq> SECRET_KEY demo_settings"
    by (simp add: demo_defs)
  show ?thesis
    using accepted_token_signed_and_unexpired [where parse = demo_parse
        and cfg = demo_settings and now = 1000 and db = demo_db
        and req = "bearer_request ''t.alice''"
        and u = "demo_user 1 ''ALICE1'' ''KEYALICE01'' True False"] a
      accepted_token_signed_and_unexpired [where parse = demo_parse
        and cfg = demo_settings and now = 1000 and db = demo_db
        and req = "bearer_request ''t.forged''" and token' = "''t.forged''"
        and t' = "demo_token ''guess'' ''ROOT04'' 2000"] e p k
    by (simp add: demo_settings_def demo_user_def)
qed

text \<open>
  C6, amended. The gate answers every error kind of the token service with the one
  response 401 \<open>Could not validate credentials\<close>, as it answers a missing token, a
  missing subject and an unknown user. Its three terminal error states have three
  statuses: unauthenticated 401, inactive account 400, admin required 403.
\<close>

theorem gate_error_responses:
  "(extract_token req = Some token \<and> token \<noteq> []
      \<and> jwt_decode parse now token (SECRET_KEY cfg) [ALGORITHM cfg] = Inl k \<longrightarrow>
      get_current_admin_user parse cfg now db req = Inl credentials_exception)
   \<and> (get_current_user parse cfg now db req = Inl e \<longrightarrow>
        e = credentials_exception \<and> status_code e = 401
        \<and> get_current_active_user parse cfg now db req = Inl e
        \<and> get_current_admin_user parse cfg now db req = Inl e)
   \<and> (get_current_user parse cfg now db req = Inr u \<and> \<not> is_active u \<longrightarrow>
        get_current_active_user parse cfg now db req = Inl (HTTPException 400 ''Inactive user'' [])
        \<and> get_current_admin_user parse cfg now db req
            = Inl (HTTPException 400 ''Inactive user'' []))
   \<and> (get_current_user parse cfg now db req = Inr u \<and> is_active u \<and> \<not> is_admin u \<longrightarrow>
        get_current_admin_user parse cfg now db req
          = Inl (HTTPException 403 ''Admin access required'' []))"
proof (intro conjI impI)
  assume "extract_token req = Some token \<and> token \<noteq> []
      \<and> jwt_decode parse now token (SECRET_KEY cfg) [ALGORITHM cfg] = Inl k"
  then show "get_current_admin_user parse cfg now db req = Inl credentials_exception"
    by (simp add: get_current_admin_user_def get_current_active_user_def get_current_user_def)
next
  assume a: "get_current_user parse cfg now db req = Inl e"
  then show e: "e = credentials_exception" by (rule get_current_user_Inl)
  then show "status_code e = 401" by (simp add: credentials_exception_def)
  from a show "get_current_active_user parse cfg now db req = Inl e"
    by (simp add: get_current_active_user_def)
  then show "get_current_admin_user parse cfg now db req = Inl e"
    by (simp add: get_current_admin_user_def)
next
  assume a: "get_current_user parse cfg now db req = Inr u \<and> \<not> is_active u"
  then show "get_current_active_user parse cfg now db req
      = Inl (HTTPException 400 ''Inactive user'' [])"
    by (simp add: get_current_active_user_def)
  then show "get_current_admin_user parse cfg now db req
      = Inl (HTTPException 400 ''Inactive user'' [])"
    by (simp add: get_current_admin_user_def)
next
  assume "get_current_user parse cfg now db req = Inr u \<and> is_active u \<and> \<not> is_admin u"
  then show "get_current_admin_user parse cfg now db req
      = Inl (HTTPException 403 ''Admin access required'' [])"
    by (simp add: get_current_admin_user_def get_current_active_user_def)
qed

theorem token_error_kinds_collapse:
  "jwt_decode demo_parse 1000 ''t.forged'' (SECRET_KEY demo_settings) [ALGORITHM demo_settings]
     = Inl InvalidSignature
   \<and> jwt_decode demo_parse 1000 ''t.old'' (SECRET_KEY demo_settings) [ALGORITHM demo_settings]
     = Inl Expired
   \<and> jwt_decode demo_parse 1000 ''garbage'' (SECRET_KEY demo_settings) [ALGORITHM demo_settings]
     = Inl Malformed
   \<and> get_current_user demo_parse demo_settings 1000 demo_db (bearer_request ''t.forged'')
     = Inl credentials_exception
   \<and> get_current_user demo_parse demo_settings 1000 demo_db (bearer_request ''t.old'')
     = Inl credentials_exception
   \<and> get_current_user demo_parse demo_settings 1000 demo_db (bearer_request ''garbage'')
     = Inl credentials_exception"
  by (simp add: demo_defs route_defs)

theorem gate_error_responses_witness:
  "get_current_admin_user demo_parse demo_settings 1000 demo_db (bearer_request ''t.old'')
     = Inl credentials_exception
   \<and> status_code credentials_exception = 401
   \<and> get_current_admin_user demo_parse demo_settings 1000 demo_db (\<lparr>cookies = Map.empty, headers = Map.empty\<rparr>)
     = Inl credentials_exception
   \<and> get_current_admin_user demo_parse demo_settings 1000 demo_db (cookie_request ''t.dave'')
     = Inl (HTTPException 400 ''Inactive user'' [])
   \<and> get_current_admin_user demo_parse demo_settings 1000 demo_db (cookie_request ''t.alice'')
     = Inl (HTTPException 403 ''Admin access required'' [])"
proof -
  have o: "extract_token (bearer_request ''t.old'') = Some ''t.old'' \<and> ''t.old'' \<noteq> []
      \<and> jwt_decode demo_parse 1000 ''t.old'' (SECRET_KEY demo_settings)
           [ALGORITHM demo_settings] = Inl Expired"
    by (simp add: demo_defs route_defs)
  have n: "get_current_user demo_parse demo_settings 1000 demo_db
             (\<lparr>cookies = Map.empty, headers = Map.empty\<rparr>) = Inl credentials_exception"
    by (simp add: demo_defs route_defs)
  have d: "get_current_user demo_parse demo_settings 1000 demo_db (cookie_request ''t.dave'')
             = Inr (demo_user 5 ''DAVE05'' ''KEYDAVE005'' False False)"
    by (simp add: demo_defs route_defs)
  have a: "get_current_user demo_parse demo_settings 1000 demo_db (cookie_request ''t.alice'')
             = Inr (demo_user 1 ''ALICE1'' ''KEYALICE01'' True False)"
    by (simp add: demo_defs route_defs)
  show ?thesis
    using gate_error_responses [where parse = demo_parse and cfg = demo_settings
        and now = 1000 and db = demo_db and req = "bearer_request ''t.old''"
        and token = "''t.old''" and k = Expired] o
      gate_error_responses [where parse = demo_parse and cfg = demo_settings
        and now = 1000 and db = demo_db and req = "\<lparr>cookies = Map.empty, headers = Map.empty\<rparr>"
        and e = credentials_exception] n
      gate_error_responses [where parse = demo_parse and cfg = demo_settings
        and now = 1000 and db = demo_db and req = "cookie_request ''t.dave''"
        and u = "demo_user 5 ''DAVE05'' ''KEYDAVE005'' False False"] d
      gate_error_responses [where parse = demo_parse and cfg = demo_settings
        and now = 1000 and db = demo_db and req = "cookie_request ''t.alice''"
        and u = "demo_user 1 ''ALICE1'' ''KEYALICE01'' True False"] a
    by (simp add: demo_user_def)
qed

section \<open>Login\<close>



text \<open>
  C9. For an account whose active flag is false, the web login and \<open>POST /token\<close>
  answer the generic failure, whatever the password, also the right one: the response
  of a login with an unknown user name, and no token in it.
\<close>

theorem inactive_account_gets_no_token:
  assumes "get_user_by_username db name = Some u" and "\<not> is_active u"
  shows "login_for_access_token sha256_hex unparse cfg now db name password
           = TemplateResponse ''login.html'' [(''error'', ''Incorrect username or password'')]
       \<and> api_login_for_access_token sha256_hex unparse cfg now db name password
           = Inl (HTTPException 401 ''Incorrect username or password''
                    [(''WWW-Authenticate'', ''Bearer'')])
       \<and> (get_user_by_username db other = None \<longrightarrow>
            login_for_access_token sha256_hex unparse cfg now db other password'
              = login_for_access_token sha256_hex unparse cfg now db name password
            \<and> api_login_for_access_token sha256_hex unparse cfg now db other password'
              = api_login_for_access_token sha256_hex unparse cfg now db name password)"
  using assms by (simp add: login_for_access_token_def api_login_for_access_token_def)

theorem inactive_account_gets_no_token_witness:
  "login_for_access_token demo_digest demo_unparse demo_settings 1000 demo_db
       ''DAVE05'' ''KEYDAVE005''
     = TemplateResponse ''login.html'' [(''error'', ''Incorrect username or password'')]
   \<and> api_login_for_access_token demo_digest demo_unparse demo_settings 1000 demo_db
       ''DAVE05'' ''KEYDAVE005''
     = Inl (HTTPException 401 ''Incorrect username or password''
              [(''WWW-Authenticate'', ''Bearer'')])
   \<and> login_for_access_token demo_digest demo_unparse demo_settings 1000 demo_db
       ''NOBODY'' ''whatever''
     = login_for_access_token demo_digest demo_unparse demo_settings 1000 demo_db
       ''DAVE05'' ''KEYDAVE005''
   \<and> verify_password demo_digest ''KEYDAVE005''
       (hashed_password (demo_user 5 ''DAVE05'' ''KEYDAVE005'' False False))"
proof -
  have d: "get_user_by_username demo_db ''DAVE05''
             = Some (demo_user 5 ''DAVE05'' ''KEYDAVE005'' False False)"
    by (simp add: demo_defs route_defs)
  have i: "\<not> is_active (demo_user 5 ''DAVE05'' ''KEYDAVE005'' False False)"
    by (simp add: demo_user_def)
  have n: "get_user_by_username demo_db ''NOBODY'' = None"
    by (simp add: demo_defs route_defs)
  have v: "verify_password demo_digest ''KEYDAVE005''
             (hashed_password (demo_user 5 ''DAVE05'' ''KEYDAVE005'' False False))"
    by (simp add: demo_defs route_defs)
  show ?thesis
    using inactive_account_gets_no_token [OF d i, where sha256_hex = demo_digest
        and unparse = demo_unparse and cfg = demo_settings and now = 1000
        and password = "''KEYDAVE005''" and other = "''NOBODY''"
        and password' = "''whatever''"] n v
    by simp
qed

section \<open>Password hashing\<close>

text \<open>
  C3, amended. For every secret that is not empty and has at most 72 bytes,
  \<open>verify(secret, hash(secret))\<close> is true; and for every other secret that is not empty
  and has at most 72 bytes, \<open>verify(secret, hash(other))\<close> is true exactly when the two
  secrets have the same digest, hence false for two secrets whose digests differ.
\<close>

theorem verify_hash_within_range:
  "(s \<noteq> [] \<and> length s \<le> 72 \<longrightarrow>
      verify_password sha256_hex s (get_password_hash sha256_hex s))
   \<and> (other \<noteq> [] \<and> length other \<le> 72 \<longrightarrow>
        verify_password sha256_hex s (get_password_hash sha256_hex other)
          = (sha256_hex s = sha256_hex other))"
  by (auto simp: verify_password_def get_password_hash_def)

text \<open>
  Two distinct secrets that verify against each other's hash, under every digest: the
  placeholder against the hash of the empty secret, and the first 72 bytes of a secret
  of 73 bytes against the hash of the whole. And the empty secret does not verify
  against its own hash, under the digest of the deployment.
\<close>

theorem distinct_secrets_verify:
  "(\<forall>sha256_hex.
      verify_password sha256_hex ''default_password'' (get_password_hash sha256_hex [])
      \<and> verify_password sha256_hex (replicate 72 (CHR ''a''))
          (get_password_hash sha256_hex (replicate 73 (CHR ''a''))))
   \<and> ''default_password'' \<noteq> ([] :: string)
   \<and> replicate 72 (CHR ''a'') \<noteq> replicate 73 (CHR ''a'')
   \<and> \<not> verify_password demo_digest [] (get_password_hash demo_digest [])"
proof -
  have "length (replicate 72 (CHR ''a'')) \<noteq> length (replicate 73 (CHR ''a''))"
    by simp
  then have "replicate 72 (CHR ''a'') \<noteq> replicate 73 (CHR ''a'')"
    by (metis (no_types))
  then show ?thesis
    by (simp add: verify_password_def get_password_hash_def decode_ignore_ascii
        demo_digest_def)
qed

theorem verify_hash_within_range_witness:
  "verify_password demo_digest ''KEYALICE01'' (get_password_hash demo_digest ''KEYALICE01'')
   \<and> \<not> verify_password demo_digest ''KEYALICE01'' (get_password_hash demo_digest ''KEYBOB0002'')"
  using verify_hash_within_range [of "''KEYALICE01''" demo_digest "''KEYALICE01''"]
    verify_hash_within_range [of "''KEYALICE01''" demo_digest "''KEYBOB0002''"]
  by (simp add: demo_digest_def)

text \<open>
  C4, amended. For the empty input the hasher neither rejects nor normalizes: it puts
  the placeholder \<open>default_password\<close> in its place and returns the digest of that, so
  that the empty secret has the hash of the secret \<open>default_password\<close>.
\<close>

theorem empty_secret_hashes_placeholder:
  "get_password_hash sha256_hex [] = get_password_hash sha256_hex ''default_password''"
  by (simp add: get_password_hash_def)

theorem empty_secret_digest_is_placeholder_digest:
  "\<forall>sha256_hex. get_password_hash sha256_hex [] = sha256_hex ''default_password''"
  by (simp add: get_password_hash_def)

text \<open>
  C10, amended. For a secret of more than 72 bytes, \<open>get_password_hash\<close> digests the
  well-formed part of its first 72 bytes (a character cut at the 72nd byte is dropped;
  the placeholder \<open>default_password\<close> if nothing is left): a string of at most 72 bytes
  that is not the secret. \<open>verify_password\<close> digests the whole secret. So
  \<open>verify(secret, hash(secret))\<close> is true exactly when the digest of the secret is the
  digest of that shorter string: false unless the two digests collide.
\<close>

theorem long_secret_verifies_iff_digests_agree:
  assumes "72 < length s"
  shows "get_password_hash sha256_hex s
           = sha256_hex (if decode_ignore (take 72 s) = [] then ''default_password''
                         else decode_ignore (take 72 s))
       \<and> verify_password sha256_hex s (get_password_hash sha256_hex s)
           = (sha256_hex s
                = sha256_hex (if decode_ignore (take 72 s) = [] then ''default_password''
                              else decode_ignore (take 72 s)))
       \<and> (if decode_ignore (take 72 s) = [] then ''default_password''
           else decode_ignore (take 72 s)) \<noteq> s
       \<and> length (if decode_ignore (take 72 s) = [] then ''default_password''
                 else decode_ignore (take 72 s)) \<le> 72"
proof -
  have h: "get_password_hash sha256_hex s
           = sha256_hex (if decode_ignore (take 72 s) = [] then ''default_password''
                         else decode_ignore (take 72 s))"
    using assms by (simp add: get_password_hash_def)
  have l: "length (decode_ignore (take 72 s)) \<le> 72"
    using length_decode_ignore[of "take 72 s"] by simp
  show ?thesis
    using h l hash_input_differs[OF assms] by (simp add: verify_password_def)
qed

text \<open>
  A secret of 73 bytes, 71 letters and a two-byte character: what is digested is the
  71 letters, whatever the digest, and not the first 72 bytes. And under a constant
  digest a secret of 73 letters verifies against its own hash.
\<close>

theorem long_secret_counterexample:
  "72 < length (replicate 71 (CHR ''a'') @ [CHR 0xC3, CHR 0xA9])
   \<and> (\<forall>sha256_hex.
        get_password_hash sha256_hex (replicate 71 (CHR ''a'') @ [CHR 0xC3, CHR 0xA9])
          = sha256_hex (replicate 71 (CHR ''a'')))
   \<and> take 72 (replicate 71 (CHR ''a'') @ [CHR 0xC3, CHR 0xA9]) \<noteq> replicate 71 (CHR ''a'')
   \<and> 72 < length (replicate 73 (CHR ''a''))
   \<and> verify_password (\<lambda>bs. []) (replicate 73 (CHR ''a''))
        (get_password_hash (\<lambda>bs. []) (replicate 73 (CHR ''a'')))"
proof -
  have t: "take 72 (replicate 71 (CHR ''a'') @ [CHR 0xC3, CHR 0xA9])
             = replicate 71 (CHR ''a'') @ [CHR 0xC3]"
    by simp
  have d: "decode_ignore (replicate 71 (CHR ''a'') @ [CHR 0xC3]) = replicate 71 (CHR ''a'')"
    by (simp only: decode_ignore_ascii_append decode_ignore_cut_lead append_Nil2)
  have n: "replicate 71 (CHR ''a'') @ [CHR 0xC3] \<noteq> replicate 71 (CHR ''a'')"
    by simp
  have r: "replicate 71 (CHR ''a'') \<noteq> []" by simp
  show ?thesis
    using t d n r by (simp add: get_password_hash_def verify_password_def)
qed

theorem long_secret_verifies_iff_digests_agree_witness:
  "get_password_hash demo_digest (replicate 71 (CHR ''a'') @ [CHR 0xC3, CHR 0xA9])
     = demo_digest (replicate 71 (CHR ''a''))
   \<and> \<not> verify_password demo_digest (replicate 71 (CHR ''a'') @ [CHR 0xC3, CHR 0xA9])
       (get_password_hash demo_digest (replicate 71 (CHR ''a'') @ [CHR 0xC3, CHR 0xA9]))"
proof -
  let ?s = "replicate 71 (CHR ''a'') @ [CHR 0xC3, CHR 0xA9]"
  have l: "72 < length ?s" by simp
  have t: "take 72 ?s = replicate 71 (CHR ''a'') @ [CHR 0xC3]" by simp
  have d: "decode_ignore (take 72 ?s) = replicate 71 (CHR ''a'')"
    by (simp only: t decode_ignore_ascii_append decode_ignore_cut_lead append_Nil2)
  have r: "replicate 71 (CHR ''a'') \<noteq> []" by simp
  have n: "?s \<noteq> replicate 71 (CHR ''a'')"
    by simp
  have i: "(if decode_ignore (take 72 ?s) = [] then ''default_password''
            else decode_ignore (take 72 ?s)) = replicate 71 (CHR ''a'')"
    using d r by simp
  note th = long_secret_verifies_iff_digests_agree
    [OF l, where sha256_hex = demo_digest, unfolded i]
  note A = th [THEN conjunct1]
  note B = th [THEN conjunct2, THEN conjunct1]
  from n have C: "demo_digest ?s \<noteq> demo_digest (replicate 71 (CHR ''a''))"
    by (simp only: demo_digest_def not_False_eq_True)
  show ?thesis
  proof (intro conjI)
    show "get_password_hash demo_digest ?s = demo_digest (replicate 71 (CHR ''a''))"
      by (rule A)
    show "\<not> verify_password demo_digest ?s (get_password_hash demo_digest ?s)"
      unfolding B by (rule C)
  qed
qed

end
